theory Spec2Isabelle
  imports Main
begin

section \<open>Data model\<close>

text \<open>
  Modelled from the spec: the package \<open>models\<close> is not among the sources. The record
  has the fields that \<open>services.go\<close> reads and writes (\<open>FullName\<close>, \<open>Username\<close>,
  \<open>Password\<close>, \<open>Status\<close>, \<open>Role\<close>, \<open>ProfilePicture\<close>) and the identifier the store
  assigns. \<open>Status\<close> and \<open>Role\<close> are string-typed enumerations in the source (they are
  compared with the empty string in \<open>UpdateUserByID\<close>), so they are strings here and a
  request body can carry any text in them. Go strings are byte sequences and \<open>len\<close>
  counts bytes, as \<open>length\<close> does on a \<open>string\<close>.
\<close>

record User =
  ID :: string
  FullName :: string
  Username :: string
  Password :: string
  Status :: string
  Role :: string
  ProfilePicture :: string

text \<open>Modelled from the spec: the constants \<open>models.Active\<close>, \<open>models.Inactive\<close>,
  \<open>models.Admin\<close> and \<open>models.Operator\<close>, with the spellings of the spec's enumerations.\<close>

definition Active :: string where
  "Active = ''Active''"

definition Inactive :: string where
  "Inactive = ''Inactive''"

definition Admin :: string where
  "Admin = ''Admin''"

definition Operator :: string where
  "Operator = ''Operator''"

text \<open>
  Go's \<open>error\<close> values. \<open>ErrorsNew m\<close> is \<open>errors.New(m)\<close>; \<open>RedisNil\<close> is the sentinel
  \<open>redis.Nil\<close> (no such key); the others are the failures the collaborators hand back.
\<close>

datatype error =
    ErrorsNew string
  | RedisNil
  | RedisError string
  | RepositoryError string
  | BcryptError string
  | CodecError string
  | JWTError string

text \<open>Every call that leaves the service for a collaborator is recorded in order.\<close>

datatype event =
    RedisGet string
  | RedisSet string string nat
  | RepoGetUserByID string
  | RepoGetUserByUsername string
  | RepoCreateUser User
  | RepoUpdateUser User
  | RepoDeleteUser User
  | BcryptGenerate string
  | BcryptCompare string string
  | JWTGenerate User

text \<open>
  The collaborators' behaviour that the service cannot control: a transport fault for
  each Redis and repository call (\<open>None\<close>: the call goes through), the serialisation
  pair of \<open>models\<close>, bcrypt, the token issuer of \<open>utils\<close> and the environment variable
  \<open>JWT_SECRET_KEY\<close>. \<open>CompareHashAndPassword e h p\<close> holds when bcrypt returns a nil
  error for hash \<open>h\<close> and password \<open>p\<close>.
\<close>

record env =
  redisGetErr :: "error option"
  redisSetErr :: "error option"
  repoGetErr :: "error option"
  repoCreateErr :: "error option"
  repoUpdateErr :: "error option"
  repoDeleteErr :: "error option"
  Serialize :: "User \<Rightarrow> error + string"
  DeserializeUser :: "string \<Rightarrow> error + User"
  GenerateFromPassword :: "string \<Rightarrow> error + string"
  CompareHashAndPassword :: "string \<Rightarrow> string \<Rightarrow> bool"
  GenerateJWTToken :: "User \<Rightarrow> string \<Rightarrow> error + string"
  JWT_SECRET_KEY :: string

text \<open>
  The state the service works on: the table of users and its next identifier, the
  Redis keyspace (each value with the instant at which it expires), the clock in
  seconds, and the record of collaborator calls.
\<close>

record world =
  users :: "User list"
  nextID :: nat
  cache :: "string \<Rightarrow> (string \<times> nat) option"
  now :: nat
  trace :: "event list"

definition userCachePrefix :: string where
  "userCachePrefix = ''user:''"

text \<open>\<open>cacheExpiration = 10 * time.Minute\<close>, in seconds.\<close>

definition cacheExpiration :: nat where
  "cacheExpiration = 10 * 60"

section \<open>Collaborators\<close>

definition digit :: "nat \<Rightarrow> char" where
  "digit d = char_of (48 + d)"

fun decimal :: "nat \<Rightarrow> string" where
  "decimal n = (if n < 10 then [digit n] else decimal (n div 10) @ [digit (n mod 10)])"

declare decimal.simps [simp del]

definition emit :: "event \<Rightarrow> world \<Rightarrow> world" where
  "emit ev w = w\<lparr>trace := trace w @ [ev]\<rparr>"

text \<open>
  Modelled from the spec: the Redis client of \<open>initializers\<close>. \<open>Get\<close> answers
  \<open>redis.Nil\<close> for a key that was never written or whose time-to-live has lapsed;
  \<open>Set\<close> stores the value with the expiry \<open>now + ttl\<close>. A transport fault answers with
  its error and leaves the keyspace as it was.
\<close>

definition redisGet :: "env \<Rightarrow> string \<Rightarrow> world \<Rightarrow> (error + string) \<times> world" where
  "redisGet e k w =
     (case redisGetErr e of
        Some err \<Rightarrow> (Inl err, emit (RedisGet k) w)
      | None \<Rightarrow>
          (case cache w k of
             None \<Rightarrow> (Inl RedisNil, emit (RedisGet k) w)
           | Some (v, expiry) \<Rightarrow>
               if now w < expiry then (Inr v, emit (RedisGet k) w)
               else (Inl RedisNil, emit (RedisGet k) w)))"

definition redisSet :: "env \<Rightarrow> string \<Rightarrow> string \<Rightarrow> nat \<Rightarrow> world \<Rightarrow> error option \<times> world" where
  "redisSet e k v ttl w =
     (case redisSetErr e of
        Some err \<Rightarrow> (Some err, emit (RedisSet k v ttl) w)
      | None \<Rightarrow> (None, emit (RedisSet k v ttl) (w\<lparr>cache := (cache w)(k \<mapsto> (v, now w + ttl))\<rparr>)))"

text \<open>
  Modelled from the spec: the package \<open>repository\<close> is not among the sources. Each
  call returns the user (or none) and an error; the store assigns the identifier on
  creation (the decimal form of a counter) and enforces that usernames are unique.
  \<open>UpdateUser\<close> replaces the row with the user's identifier and \<open>DeleteUser\<close> removes it.
\<close>

definition repoGetUserByID :: "env \<Rightarrow> string \<Rightarrow> world \<Rightarrow> (error + User option) \<times> world" where
  "repoGetUserByID e userID w =
     (case repoGetErr e of
        Some err \<Rightarrow> (Inl err, emit (RepoGetUserByID userID) w)
      | None \<Rightarrow> (Inr (find (\<lambda>u. ID u = userID) (users w)), emit (RepoGetUserByID userID) w))"

definition repoGetUserByUsername :: "env \<Rightarrow> string \<Rightarrow> world \<Rightarrow> (error + User option) \<times> world" where
  "repoGetUserByUsername e name w =
     (case repoGetErr e of
        Some err \<Rightarrow> (Inl err, emit (RepoGetUserByUsername name) w)
      | None \<Rightarrow> (Inr (find (\<lambda>u. Username u = name) (users w)), emit (RepoGetUserByUsername name) w))"

definition repoCreateUser :: "env \<Rightarrow> User \<Rightarrow> world \<Rightarrow> (error + User) \<times> world" where
  "repoCreateUser e user w =
     (case repoCreateErr e of
        Some err \<Rightarrow> (Inl err, emit (RepoCreateUser user) w)
      | None \<Rightarrow>
          (case find (\<lambda>u. Username u = Username user) (users w) of
             Some other \<Rightarrow> (Inl (RepositoryError ''duplicate username''), emit (RepoCreateUser user) w)
           | None \<Rightarrow>
               (Inr (user\<lparr>ID := decimal (nextID w)\<rparr>),
                emit (RepoCreateUser user)
                  (w\<lparr>users := users w @ [user\<lparr>ID := decimal (nextID w)\<rparr>],
                     nextID := Suc (nextID w)\<rparr>))))"

definition repoUpdateUser :: "env \<Rightarrow> User \<Rightarrow> world \<Rightarrow> error option \<times> world" where
  "repoUpdateUser e user w =
     (case repoUpdateErr e of
        Some err \<Rightarrow> (Some err, emit (RepoUpdateUser user) w)
      | None \<Rightarrow>
          (case find (\<lambda>u. Username u = Username user \<and> ID u \<noteq> ID user) (users w) of
             Some other \<Rightarrow> (Some (RepositoryError ''duplicate username''), emit (RepoUpdateUser user) w)
           | None \<Rightarrow>
               (None,
                emit (RepoUpdateUser user)
                  (w\<lparr>users := map (\<lambda>u. if ID u = ID user then user else u) (users w)\<rparr>))))"

definition repoDeleteUser :: "env \<Rightarrow> User \<Rightarrow> world \<Rightarrow> error option \<times> world" where
  "repoDeleteUser e user w =
     (case repoDeleteErr e of
        Some err \<Rightarrow> (Some err, emit (RepoDeleteUser user) w)
      | None \<Rightarrow>
          (None, emit (RepoDeleteUser user) (w\<lparr>users := filter (\<lambda>u. ID u \<noteq> ID user) (users w)\<rparr>)))"

text \<open>The bcrypt and token calls, recorded and answered by the environment.\<close>

definition bcryptGenerateFromPassword :: "env \<Rightarrow> string \<Rightarrow> world \<Rightarrow> (error + string) \<times> world" where
  "bcryptGenerateFromPassword e password w =
     (GenerateFromPassword e password, emit (BcryptGenerate password) w)"

definition bcryptCompareHashAndPassword :: "env \<Rightarrow> string \<Rightarrow> string \<Rightarrow> world \<Rightarrow> bool \<times> world" where
  "bcryptCompareHashAndPassword e hashed password w =
     (CompareHashAndPassword e hashed password, emit (BcryptCompare hashed password) w)"

definition utilsGenerateJWTToken :: "env \<Rightarrow> User \<Rightarrow> world \<Rightarrow> (error + string) \<times> world" where
  "utilsGenerateJWTToken e user w =
     (GenerateJWTToken e user (JWT_SECRET_KEY e), emit (JWTGenerate user) w)"

text \<open>
  \<open>regexp.MustCompile("^[a-zA-Z]+$").MatchString\<close>: in Go's syntax \<open>$\<close> without the
  multi-line flag matches at the end of the text only, so the pattern accepts exactly
  the non-empty strings of ASCII letters.
\<close>

definition isLetter :: "char \<Rightarrow> bool" where
  "isLetter c =
     ((97 \<le> (of_char c :: nat) \<and> (of_char c :: nat) \<le> 122) \<or>
      (65 \<le> (of_char c :: nat) \<and> (of_char c :: nat) \<le> 90))"

definition usernameRegex :: "string \<Rightarrow> bool" where
  "usernameRegex s = (s \<noteq> [] \<and> list_all isLetter s)"

section \<open>The services of \<open>services.go\<close>\<close>

text \<open>
  A result \<open>(user, err)\<close> of the source is \<open>Inl err\<close> when \<open>err\<close> is not nil and
  \<open>Inr user\<close> otherwise, where a nil user is \<open>None\<close>. The log lines of the source change
  no result and no state of a collaborator and are left out.
\<close>

definition CreateUser :: "env \<Rightarrow> User \<Rightarrow> world \<Rightarrow> (error + User) \<times> world" where
  "CreateUser e body w =
     (if FullName body = [] \<or> Username body = [] \<or> Password body = [] then
        (Inl (ErrorsNew ''all fields must be provided''), w)
      else if \<not> usernameRegex (Username body) then
        (Inl (ErrorsNew ''username must contain only characters''), w)
      else if length (Password body) < 8 \<or> length (Password body) > 15 then
        (Inl (ErrorsNew ''password must be between 8 and 15 characters''), w)
      else if Status body \<noteq> Active \<and> Status body \<noteq> Inactive then
        (Inl (ErrorsNew ''invalid status value''), w)
      else if Role body \<noteq> Admin \<and> Role body \<noteq> Operator then
        (Inl (ErrorsNew ''invalid role value''), w)
      else
        (case bcryptGenerateFromPassword e (Password body) w of
           (Inl err, w1) \<Rightarrow> (Inl err, w1)
         | (Inr hashedPassword, w1) \<Rightarrow>
             (case repoCreateUser e
                     \<lparr>ID = [], FullName = FullName body, Username = Username body,
                      Password = hashedPassword, Status = Status body, Role = Role body,
                      ProfilePicture = []\<rparr> w1 of
                (Inl err, w2) \<Rightarrow> (Inl err, w2)
              | (Inr user, w2) \<Rightarrow> (Inr user, w2))))"

text \<open>Lines 121 to 145 of \<open>GetUserByID\<close>: the read from the database and the cache fill.\<close>

definition GetUserByID_database :: "env \<Rightarrow> string \<Rightarrow> string \<Rightarrow> world \<Rightarrow> (error + User option) \<times> world" where
  "GetUserByID_database e userID cacheKey w =
     (case repoGetUserByID e userID w of
        (Inl err, w1) \<Rightarrow> (Inl err, w1)
      | (Inr None, w1) \<Rightarrow> (Inr None, w1)
      | (Inr (Some user), w1) \<Rightarrow>
          (case Serialize e user of
             Inl err \<Rightarrow> (Inr (Some user), w1)
           | Inr serializedUser \<Rightarrow>
               (case redisSet e cacheKey serializedUser cacheExpiration w1 of
                  (r, w2) \<Rightarrow> (Inr (Some user), w2))))"

definition GetUserByID :: "env \<Rightarrow> string \<Rightarrow> world \<Rightarrow> (error + User option) \<times> world" where
  "GetUserByID e userID w =
     (if userID = [] then (Inl (ErrorsNew ''user ID must be provided''), w)
      else
        (case redisGet e (userCachePrefix @ userID) w of
           (Inr cachedUser, w1) \<Rightarrow>
             (case DeserializeUser e cachedUser of
                Inl err \<Rightarrow> GetUserByID_database e userID (userCachePrefix @ userID) w1
              | Inr user \<Rightarrow> (Inr (Some user), w1))
         | (Inl err, w1) \<Rightarrow> GetUserByID_database e userID (userCachePrefix @ userID) w1))"

text \<open>Lines 164 to 189 of \<open>UpdateUserByID\<close>: the fields of the body that are not empty
  overwrite those of the fetched user; a password is hashed first.\<close>

definition applyUpdate :: "env \<Rightarrow> User \<Rightarrow> User \<Rightarrow> world \<Rightarrow> (error + User) \<times> world" where
  "applyUpdate e body user w =
     (let user1 = (if FullName body \<noteq> [] then user\<lparr>FullName := FullName body\<rparr> else user);
          user2 = (if Username body \<noteq> [] then user1\<lparr>Username := Username body\<rparr> else user1)
      in
        (case (if Password body \<noteq> [] then
                 (case bcryptGenerateFromPassword e (Password body) w of
                    (Inl err, w1) \<Rightarrow> (Inl err, w1)
                  | (Inr hashedPassword, w1) \<Rightarrow> (Inr (user2\<lparr>Password := hashedPassword\<rparr>), w1))
               else (Inr user2, w)) of
           (Inl err, w1) \<Rightarrow> (Inl err, w1)
         | (Inr user3, w1) \<Rightarrow>
             (let user4 = (if Status body \<noteq> [] then user3\<lparr>Status := Status body\<rparr> else user3);
                  user5 = (if Role body \<noteq> [] then user4\<lparr>Role := Role body\<rparr> else user4)
              in (Inr user5, w1))))"

definition UpdateUserByID :: "env \<Rightarrow> string \<Rightarrow> User \<Rightarrow> world \<Rightarrow> (error + User option) \<times> world" where
  "UpdateUserByID e userID body w =
     (if userID = [] then (Inl (ErrorsNew ''user ID must be provided''), w)
      else
        (case repoGetUserByID e userID w of
           (Inl err, w1) \<Rightarrow> (Inl err, w1)
         | (Inr None, w1) \<Rightarrow> (Inr None, w1)
         | (Inr (Some user), w1) \<Rightarrow>
             (case applyUpdate e body user w1 of
                (Inl err, w2) \<Rightarrow> (Inl err, w2)
              | (Inr user', w2) \<Rightarrow>
                  (case repoUpdateUser e user' w2 of
                     (Some err, w3) \<Rightarrow> (Inl err, w3)
                   | (None, w3) \<Rightarrow> (Inr (Some user'), w3)))))"

text \<open>\<open>DeleteUserByID\<close> returns an \<open>error\<close> only: \<open>None\<close> is Go's nil.\<close>

definition DeleteUserByID :: "env \<Rightarrow> string \<Rightarrow> world \<Rightarrow> error option \<times> world" where
  "DeleteUserByID e userID w =
     (if userID = [] then (Some (ErrorsNew ''user ID must be provided''), w)
      else
        (case repoGetUserByID e userID w of
           (Inl err, w1) \<Rightarrow> (Some err, w1)
         | (Inr None, w1) \<Rightarrow> (None, w1)
         | (Inr (Some user), w1) \<Rightarrow>
             (case repoDeleteUser e user w1 of
                (Some err, w2) \<Rightarrow> (Some err, w2)
              | (None, w2) \<Rightarrow> (None, w2))))"

text \<open>\<open>AuthenticateUser\<close> returns \<open>("", err)\<close> on failure (\<open>Inl err\<close>) and the token
  otherwise.\<close>

definition AuthenticateUser :: "env \<Rightarrow> User \<Rightarrow> world \<Rightarrow> (error + string) \<times> world" where
  "AuthenticateUser e body w =
     (case repoGetUserByUsername e (Username body) w of
        (Inl err, w1) \<Rightarrow> (Inl err, w1)
      | (Inr None, w1) \<Rightarrow> (Inl (ErrorsNew ''user not found''), w1)
      | (Inr (Some user), w1) \<Rightarrow>
          (case bcryptCompareHashAndPassword e (Password user) (Password body) w1 of
             (False, w2) \<Rightarrow> (Inl (ErrorsNew ''incorrect password''), w2)
           | (True, w2) \<Rightarrow>
               (case utilsGenerateJWTToken e user w2 of
                  (Inl err, w3) \<Rightarrow> (Inl (ErrorsNew ''failed to generate JWT token''), w3)
                | (Inr tokenString, w3) \<Rightarrow> (Inr tokenString, w3))))"

section \<open>Notions the properties are stated with\<close>

text \<open>The user a cache read delivers for an id: the entry is live, the transport
  answers, and the value deserialises. Otherwise none.\<close>

definition cachedUser :: "env \<Rightarrow> world \<Rightarrow> string \<Rightarrow> User option" where
  "cachedUser e w userID =
     (case fst (redisGet e (userCachePrefix @ userID) w) of
        Inl err \<Rightarrow> None
      | Inr s \<Rightarrow> (case DeserializeUser e s of Inl err \<Rightarrow> None | Inr u \<Rightarrow> Some u))"

text \<open>The row the store holds for an id.\<close>

definition storedUser :: "world \<Rightarrow> string \<Rightarrow> User option" where
  "storedUser w userID = find (\<lambda>u. ID u = userID) (users w)"

text \<open>The Redis calls among recorded events.\<close>

fun isRedis :: "event \<Rightarrow> bool" where
  "isRedis (RedisGet k) = True"
| "isRedis (RedisSet k v ttl) = True"
| "isRedis ev = False"

text \<open>\<open>create\<close> followed by \<open>read\<close> of the identifier the store assigned.\<close>

definition createThenRead :: "env \<Rightarrow> env \<Rightarrow> User \<Rightarrow> world \<Rightarrow> (error + User option) \<times> world" where
  "createThenRead e e' body w =
     (case CreateUser e body w of
        (Inl err, w1) \<Rightarrow> (Inl err, w1)
      | (Inr user, w1) \<Rightarrow> GetUserByID e' (ID user) w1)"

text \<open>The rules \<open>CreateUser\<close> checks, as one predicate on the request body.\<close>

definition validInput :: "User \<Rightarrow> bool" where
  "validInput body =
     (FullName body \<noteq> [] \<and> Username body \<noteq> [] \<and> Password body \<noteq> [] \<and>
      usernameRegex (Username body) \<and>
      8 \<le> length (Password body) \<and> length (Password body) \<le> 15 \<and>
      (Status body = Active \<or> Status body = Inactive) \<and>
      (Role body = Admin \<or> Role body = Operator))"

text \<open>What bcrypt promises: a generated hash is 60 bytes long and verifies against the
  password it was generated from.\<close>

definition bcryptContract :: "env \<Rightarrow> bool" where
  "bcryptContract e =
     (\<forall>p h. GenerateFromPassword e p = Inr h \<longrightarrow> length h = 60 \<and> CompareHashAndPassword e h p)"

text \<open>
  States the store and the cache can be in: every row carries an identifier the
  store has handed out (the decimal form of a number below the counter), and no
  cache entry stands under the key of an identifier that is still to be assigned.
\<close>

definition wellFormed :: "world \<Rightarrow> bool" where
  "wellFormed w =
     ((\<forall>u \<in> set (users w). \<exists>k < nextID w. ID u = decimal k) \<and>
      (\<forall>k. nextID w \<le> k \<longrightarrow> cache w (userCachePrefix @ decimal k) = None))"



text \<open>The clock moves between calls.\<close>

definition advance :: "nat \<Rightarrow> world \<Rightarrow> world" where
  "advance d w = w\<lparr>now := now w + d\<rparr>"

text \<open>The fetched user with the non-empty fields of the body written over it and the
  password field set to \<open>pw\<close>; the identifier and the profile picture stay.\<close>

definition mergeFields :: "User \<Rightarrow> User \<Rightarrow> string \<Rightarrow> User" where
  "mergeFields body u pw =
     \<lparr>ID = ID u,
      FullName = (if FullName body \<noteq> [] then FullName body else FullName u),
      Username = (if Username body \<noteq> [] then Username body else Username u),
      Password = pw,
      Status = (if Status body \<noteq> [] then Status body else Status u),
      Role = (if Role body \<noteq> [] then Role body else Role u),
      ProfilePicture = ProfilePicture u\<rparr>"

section \<open>A concrete environment\<close>

text \<open>
  Stand-ins for the collaborators on which the theorems are exercised: a codec that
  writes the fields one after another, each closed by a semicolon; a hash of the
  60-byte shape of bcrypt; a token that names the user.
\<close>

fun splitFields :: "string \<Rightarrow> string \<Rightarrow> string list" where
  "splitFields acc [] = []"
| "splitFields acc (c # cs) =
     (if c = CHR '';'' then rev acc # splitFields [] cs else splitFields (c # acc) cs)"

definition exampleEncode :: "User \<Rightarrow> string" where
  "exampleEncode u =
     concat (map (\<lambda>f. f @ '';'')
       [ID u, FullName u, Username u, Password u, Status u, Role u, ProfilePicture u])"

definition exampleSerialize :: "User \<Rightarrow> error + string" where
  "exampleSerialize u = Inr (exampleEncode u)"

definition exampleDeserialize :: "string \<Rightarrow> error + User" where
  "exampleDeserialize s =
     (case splitFields [] s of
        [a, b, c, d, f, g, h] \<Rightarrow>
          Inr \<lparr>ID = a, FullName = b, Username = c, Password = d, Status = f, Role = g,
               ProfilePicture = h\<rparr>
      | _ \<Rightarrow> Inl (CodecError ''malformed user''))"

definition exampleHash :: "string \<Rightarrow> string" where
  "exampleHash p = ''$2a$10$'' @ replicate (53 - length p) (CHR ''.'') @ rev p"

definition exampleGenerate :: "string \<Rightarrow> error + string" where
  "exampleGenerate p =
     (if length p \<le> 53 then Inr (exampleHash p) else Inl (BcryptError ''password too long''))"

definition exampleToken :: "User \<Rightarrow> string \<Rightarrow> error + string" where
  "exampleToken u key = Inr (''token:'' @ ID u @ '':'' @ Username u @ '':'' @ Role u)"

definition env0 :: env where
  "env0 =
     \<lparr>redisGetErr = None, redisSetErr = None, repoGetErr = None, repoCreateErr = None,
      repoUpdateErr = None, repoDeleteErr = None,
      Serialize = exampleSerialize, DeserializeUser = exampleDeserialize,
      GenerateFromPassword = exampleGenerate,
      CompareHashAndPassword = (\<lambda>h p. length p \<le> 53 \<and> h = exampleHash p),
      GenerateJWTToken = exampleToken, JWT_SECRET_KEY = ''secret''\<rparr>"

text \<open>The same environment with Redis unreachable and a serialiser that fails.\<close>

definition envCacheDown :: env where
  "envCacheDown =
     env0\<lparr>redisGetErr := Some (RedisError ''connection refused''),
          redisSetErr := Some (RedisError ''connection refused''),
          Serialize := (\<lambda>u. Inl (CodecError ''cannot serialise''))\<rparr>"

definition alice :: User where
  "alice =
     \<lparr>ID = ''1'', FullName = ''Alice Liddell'', Username = ''alice'',
      Password = exampleHash ''correctpass'', Status = ''Active'', Role = ''Admin'',
      ProfilePicture = []\<rparr>"

definition world0 :: world where
  "world0 = \<lparr>users = [alice], nextID = 2, cache = (\<lambda>k. None), now = 0, trace = []\<rparr>"

text \<open>The state at start-up: no user, no cache entry.\<close>

definition worldEmpty :: world where
  "worldEmpty = \<lparr>users = [], nextID = 1, cache = (\<lambda>k. None), now = 0, trace = []\<rparr>"

text \<open>The same state after a read has cached \<open>alice\<close>, and with an entry under her key
  that is no serialised user.\<close>

definition worldCached :: world where
  "worldCached = world0\<lparr>cache := (cache world0)(''user:1'' \<mapsto> (exampleEncode alice, 600))\<rparr>"

definition worldGarbage :: world where
  "worldGarbage = world0\<lparr>cache := (cache world0)(''user:1'' \<mapsto> (''garbage'', 600))\<rparr>"

text \<open>Request bodies: one with no field set, and a valid registration that also
  carries a profile picture.\<close>

definition emptyBody :: User where
  "emptyBody =
     \<lparr>ID = [], FullName = [], Username = [], Password = [], Status = [], Role = [],
      ProfilePicture = []\<rparr>"

definition bob :: User where
  "bob =
     \<lparr>ID = [], FullName = ''Bob Builder'', Username = ''bob'', Password = ''buildit123'',
      Status = ''Active'', Role = ''Operator'', ProfilePicture = ''bob.png''\<rparr>"


section \<open>The collaborators' calls, unfolded\<close>

lemmas prim_defs = redisGet_def redisSet_def repoGetUserByID_def repoGetUserByUsername_def
  repoCreateUser_def repoUpdateUser_def repoDeleteUser_def bcryptGenerateFromPassword_def
  bcryptCompareHashAndPassword_def utilsGenerateJWTToken_def emit_def

lemma applyUpdate_eq:
  "applyUpdate e body u w =
     (if Password body = [] then (Inr (mergeFields body u (Password u)), w)
      else (case GenerateFromPassword e (Password body) of
              Inl err \<Rightarrow> (Inl err, w\<lparr>trace := trace w @ [BcryptGenerate (Password body)]\<rparr>)
            | Inr h \<Rightarrow>
                (Inr (mergeFields body u h),
                 w\<lparr>trace := trace w @ [BcryptGenerate (Password body)]\<rparr>)))"
  by (cases u) (simp add: applyUpdate_def bcryptGenerateFromPassword_def emit_def Let_def
      mergeFields_def split: sum.splits)

section \<open>The concrete environment, evaluated\<close>

lemmas example_defs = env0_def envCacheDown_def world0_def worldCached_def worldGarbage_def
  alice_def exampleSerialize_def exampleEncode_def exampleDeserialize_def exampleHash_def
  exampleGenerate_def exampleToken_def userCachePrefix_def cacheExpiration_def

lemma example_hit: "cachedUser env0 worldCached ''1'' = Some alice"
  by code_simp

lemma example_wrong_password: "\<not> CompareHashAndPassword env0 (Password alice) ''wrongpass''"
  by code_simp

lemma example_right_password: "CompareHashAndPassword env0 (Password alice) ''correctpass''"
  by code_simp

lemma example_garbage: "fst (redisGet env0 (userCachePrefix @ ''1'') worldGarbage) = Inr ''garbage'' \<and>
   DeserializeUser env0 ''garbage'' = Inl (CodecError ''malformed user'')"
  by (simp add: cachedUser_def redisGet_def emit_def example_defs)

lemma example_miss: "cachedUser env0 world0 ''7'' = None \<and> repoGetErr env0 = None \<and> storedUser world0 ''7'' = None"
  by (simp add: cachedUser_def storedUser_def redisGet_def emit_def example_defs)

lemma example_found: "cachedUser env0 world0 ''1'' = None \<and> repoGetErr env0 = None \<and>
   storedUser world0 ''1'' = Some alice \<and> Serialize env0 alice = Inr (exampleEncode alice)"
  by (simp add: cachedUser_def storedUser_def redisGet_def emit_def env0_def world0_def alice_def exampleSerialize_def userCachePrefix_def)

lemma example_down: "cachedUser envCacheDown world0 ''1'' = None \<and> repoGetErr envCacheDown = None \<and>
   storedUser world0 ''1'' = Some alice \<and> Serialize envCacheDown alice = Inl (CodecError ''cannot serialise'')"
  by (simp add: cachedUser_def storedUser_def redisGet_def emit_def env0_def envCacheDown_def world0_def alice_def userCachePrefix_def)


section \<open>Empty identifiers\<close>

text \<open>
  C10. For the empty user id, \<open>GetUserByID\<close>, \<open>UpdateUserByID\<close> and \<open>DeleteUserByID\<close> each
  return the error "user ID must be provided" and hand back the state they were given:
  no cache or repository call is recorded, and cache and store are unchanged.
\<close>

theorem empty_id_rejected:
  "GetUserByID e [] w = (Inl (ErrorsNew ''user ID must be provided''), w) \<and>
   UpdateUserByID e [] body w = (Inl (ErrorsNew ''user ID must be provided''), w) \<and>
   DeleteUserByID e [] w = (Some (ErrorsNew ''user ID must be provided''), w)"
  by (simp add: GetUserByID_def UpdateUserByID_def DeleteUserByID_def)

section \<open>The cache-aside read\<close>

text \<open>
  C1. \<open>GetUserByID\<close> for a non-empty id. (1) When the cache delivers a user (a live entry
  that deserialises), that user is returned and the only call made is the cache read:
  no repository read, no cache write. (2) A hit whose value does not deserialise gives
  the result and the calls of a miss. (3) Otherwise, when the repository finds no
  user, the result is the nil user with a nil error and the calls are the cache read
  and the repository read: no cache write. (4) When the repository finds a user that
  serialises to \<open>s\<close>, the store's user is returned and the calls are the cache read, the
  repository read and the write of \<open>s\<close> under \<open>"user:" + id\<close> with the fixed expiration;
  the entry is in the cache unless the transport refused the write. (5) When the
  serialiser fails there is nothing to write, and the store's user is returned.
\<close>

theorem getUserByID_cache_aside:
  assumes "userID \<noteq> []"
  shows
   "(\<forall>u. cachedUser e w userID = Some u \<longrightarrow>
        GetUserByID e userID w =
          (Inr (Some u), w\<lparr>trace := trace w @ [RedisGet (userCachePrefix @ userID)]\<rparr>)) \<and>
    (\<forall>s err. fst (redisGet e (userCachePrefix @ userID) w) = Inr s \<and>
             DeserializeUser e s = Inl err \<longrightarrow>
        fst (GetUserByID e userID w) =
          fst (GetUserByID e userID (w\<lparr>cache := (cache w)(userCachePrefix @ userID := None)\<rparr>)) \<and>
        trace (snd (GetUserByID e userID w)) =
          trace (snd (GetUserByID e userID
                   (w\<lparr>cache := (cache w)(userCachePrefix @ userID := None)\<rparr>)))) \<and>
    (cachedUser e w userID = None \<and> repoGetErr e = None \<and> storedUser w userID = None \<longrightarrow>
        GetUserByID e userID w =
          (Inr None,
           w\<lparr>trace := trace w @ [RedisGet (userCachePrefix @ userID), RepoGetUserByID userID]\<rparr>)) \<and>
    (\<forall>u s. cachedUser e w userID = None \<and> repoGetErr e = None \<and>
           storedUser w userID = Some u \<and> Serialize e u = Inr s \<longrightarrow>
        fst (GetUserByID e userID w) = Inr (Some u) \<and>
        trace (snd (GetUserByID e userID w)) =
          trace w @ [RedisGet (userCachePrefix @ userID), RepoGetUserByID userID,
                     RedisSet (userCachePrefix @ userID) s cacheExpiration] \<and>
        users (snd (GetUserByID e userID w)) = users w \<and>
        cache (snd (GetUserByID e userID w)) =
          (if redisSetErr e = None
           then (cache w)(userCachePrefix @ userID \<mapsto> (s, now w + cacheExpiration))
           else cache w)) \<and>
    (\<forall>u err. cachedUser e w userID = None \<and> repoGetErr e = None \<and>
           storedUser w userID = Some u \<and> Serialize e u = Inl err \<longrightarrow>
        GetUserByID e userID w =
          (Inr (Some u),
           w\<lparr>trace := trace w @ [RedisGet (userCachePrefix @ userID), RepoGetUserByID userID]\<rparr>))"
  using assms
  by (auto simp: GetUserByID_def GetUserByID_database_def cachedUser_def storedUser_def prim_defs
      split: option.splits sum.splits prod.splits if_splits)

text \<open>The five cases at \<open>alice\<close>: cached, cached as garbage, unknown id, stored and
  cacheable, stored with the cache down and a failing serialiser.\<close>

theorem getUserByID_cache_aside_witness:
  "GetUserByID env0 ''1'' worldCached =
     (Inr (Some alice), worldCached\<lparr>trace := [RedisGet ''user:1'']\<rparr>) \<and>
   fst (GetUserByID env0 ''1'' worldGarbage) = Inr (Some alice) \<and>
   GetUserByID env0 ''7'' world0 =
     (Inr None, world0\<lparr>trace := [RedisGet ''user:7'', RepoGetUserByID ''7'']\<rparr>) \<and>
   fst (GetUserByID env0 ''1'' world0) = Inr (Some alice) \<and>
   trace (snd (GetUserByID env0 ''1'' world0)) =
     [RedisGet ''user:1'', RepoGetUserByID ''1'', RedisSet ''user:1'' (exampleEncode alice) 600] \<and>
   cache (snd (GetUserByID env0 ''1'' world0)) ''user:1'' = Some (exampleEncode alice, 600) \<and>
   GetUserByID envCacheDown ''1'' world0 =
     (Inr (Some alice), world0\<lparr>trace := [RedisGet ''user:1'', RepoGetUserByID ''1'']\<rparr>)"
proof -
  have ne: "''1'' \<noteq> []" "''7'' \<noteq> []" by simp_all
  have k: "userCachePrefix @ ''1'' = ''user:1''" "userCachePrefix @ ''7'' = ''user:7''"
    by (simp_all add: userCachePrefix_def)
  have t0: "trace world0 = []" "trace worldCached = []" "trace worldGarbage = []" "now world0 = 0"
    "redisSetErr env0 = None"
    by (simp_all add: world0_def worldCached_def worldGarbage_def env0_def)
  have c0: "(cache worldGarbage)(''user:1'' := None) = cache world0"
    by (simp add: worldGarbage_def world0_def)
  have g0: "worldGarbage\<lparr>cache := cache world0\<rparr> = world0"
    by (simp add: worldGarbage_def world0_def)
  note A = getUserByID_cache_aside[OF ne(1), of env0 worldCached]
  note B = getUserByID_cache_aside[OF ne(1), of env0 worldGarbage]
  note C = getUserByID_cache_aside[OF ne(2), of env0 world0]
  note D = getUserByID_cache_aside[OF ne(1), of env0 world0]
  note E = getUserByID_cache_aside[OF ne(1), of envCacheDown world0]
  have a: "GetUserByID env0 ''1'' worldCached =
     (Inr (Some alice), worldCached\<lparr>trace := [RedisGet ''user:1'']\<rparr>)"
    using A example_hit by (simp add: k t0)
  have d: "fst (GetUserByID env0 ''1'' world0) = Inr (Some alice) \<and>
   trace (snd (GetUserByID env0 ''1'' world0)) =
     [RedisGet ''user:1'', RepoGetUserByID ''1'', RedisSet ''user:1'' (exampleEncode alice) 600] \<and>
   cache (snd (GetUserByID env0 ''1'' world0)) ''user:1'' = Some (exampleEncode alice, 600)"
    using D example_found by (simp add: k t0 cacheExpiration_def)
  have b: "fst (GetUserByID env0 ''1'' worldGarbage) = Inr (Some alice)"
    using B example_garbage d by (simp add: k c0 g0)
  have c: "GetUserByID env0 ''7'' world0 =
     (Inr None, world0\<lparr>trace := [RedisGet ''user:7'', RepoGetUserByID ''7'']\<rparr>)"
    using C example_miss by (simp add: k t0)
  have e: "GetUserByID envCacheDown ''1'' world0 =
     (Inr (Some alice), world0\<lparr>trace := [RedisGet ''user:1'', RepoGetUserByID ''1'']\<rparr>)"
    using E example_down by (simp add: k t0)
  show ?thesis using a b c d e by blast
qed



section \<open>Authentication\<close>

text \<open>
  C3, as the code has it. With a repository that answers, \<open>AuthenticateUser\<close> for a
  username that no row carries fails with the error "user not found" after the
  repository lookup alone; for a username that a row carries and a password that does
  not verify it fails with the error "incorrect password". Both return no token, and
  the two errors are different values.
\<close>

theorem authenticate_failures_differ:
  assumes "repoGetErr e = None"
  shows
   "(find (\<lambda>u. Username u = Username body) (users w) = None \<longrightarrow>
       AuthenticateUser e body w =
         (Inl (ErrorsNew ''user not found''),
          w\<lparr>trace := trace w @ [RepoGetUserByUsername (Username body)]\<rparr>)) \<and>
    (\<forall>u. find (\<lambda>u. Username u = Username body) (users w) = Some u \<and>
         \<not> CompareHashAndPassword e (Password u) (Password body) \<longrightarrow>
       AuthenticateUser e body w =
         (Inl (ErrorsNew ''incorrect password''),
          w\<lparr>trace := trace w @ [RepoGetUserByUsername (Username body),
                                 BcryptCompare (Password u) (Password body)]\<rparr>)) \<and>
    ErrorsNew ''user not found'' \<noteq> ErrorsNew ''incorrect password''"
  using assms
  by (simp add: AuthenticateUser_def prim_defs)

text \<open>Both failures on the store that holds \<open>alice\<close>.\<close>

theorem authenticate_failures_differ_witness:
  "fst (AuthenticateUser env0 (emptyBody\<lparr>Username := ''nouser'', Password := ''x''\<rparr>) world0) =
     Inl (ErrorsNew ''user not found'') \<and>
   fst (AuthenticateUser env0 (emptyBody\<lparr>Username := ''alice'', Password := ''wrongpass''\<rparr>) world0) =
     Inl (ErrorsNew ''incorrect password'')"
proof -
  have r: "repoGetErr env0 = None" by (simp add: env0_def)
  have a: "find (\<lambda>u. Username u = Username (emptyBody\<lparr>Username := ''nouser'', Password := ''x''\<rparr>))
             (users world0) = None"
    by (simp add: world0_def alice_def)
  have b: "find (\<lambda>u. Username u = Username (emptyBody\<lparr>Username := ''alice'', Password := ''wrongpass''\<rparr>))
             (users world0) = Some alice"
    by (simp add: world0_def alice_def)
  have c: "\<not> CompareHashAndPassword env0 (Password alice)
              (Password (emptyBody\<lparr>Username := ''alice'', Password := ''wrongpass''\<rparr>))"
    using example_wrong_password by simp
  show ?thesis
    using authenticate_failures_differ[OF r, of "emptyBody\<lparr>Username := ''nouser'', Password := ''x''\<rparr>" world0]
      authenticate_failures_differ[OF r, of "emptyBody\<lparr>Username := ''alice'', Password := ''wrongpass''\<rparr>" world0]
      a b c
    by simp
qed

text \<open>C3 as stated fails: an unknown username and a wrong password for \<open>alice\<close> give
  different errors.\<close>

theorem authenticate_failures_counterexample:
  "fst (AuthenticateUser env0 (alice\<lparr>Username := ''nouser'', Password := ''x''\<rparr>) world0) \<noteq>
   fst (AuthenticateUser env0 (alice\<lparr>Username := ''alice'', Password := ''wrongpass''\<rparr>) world0)"
  by (simp add: AuthenticateUser_def prim_defs env0_def world0_def alice_def exampleHash_def)

section \<open>Writes and the cache\<close>

lemma UpdateUserByID_frame:
  "cache (snd (UpdateUserByID e userID body w)) = cache w \<and>
   now (snd (UpdateUserByID e userID body w)) = now w \<and>
   filter isRedis (trace (snd (UpdateUserByID e userID body w))) = filter isRedis (trace w)"
  by (simp add: UpdateUserByID_def applyUpdate_eq repoGetUserByID_def repoUpdateUser_def emit_def
      split: option.splits sum.splits)

lemma DeleteUserByID_frame:
  "cache (snd (DeleteUserByID e userID w)) = cache w \<and>
   now (snd (DeleteUserByID e userID w)) = now w \<and>
   filter isRedis (trace (snd (DeleteUserByID e userID w))) = filter isRedis (trace w)"
  by (simp add: DeleteUserByID_def repoGetUserByID_def repoDeleteUser_def emit_def
      split: option.splits)

lemma cachedUser_frame:
  "cache w' = cache w \<Longrightarrow> now w' = now w \<Longrightarrow>
   cachedUser e (advance d w') k = cachedUser e (advance d w) k"
  by (simp add: cachedUser_def redisGet_def advance_def split: option.splits)

text \<open>
  C8. \<open>UpdateUserByID\<close> and \<open>DeleteUserByID\<close> leave the Redis keyspace and the clock as
  they were and make no Redis call, whatever the id, the body, the environment and the
  outcome. So at every later instant every key delivers the user it would have
  delivered without the write: an entry written by an earlier read stays until its
  time-to-live lapses.
\<close>

theorem writes_never_touch_cache:
  "cache (snd (UpdateUserByID e userID body w)) = cache w \<and>
   now (snd (UpdateUserByID e userID body w)) = now w \<and>
   filter isRedis (trace (snd (UpdateUserByID e userID body w))) = filter isRedis (trace w) \<and>
   cache (snd (DeleteUserByID e userID w)) = cache w \<and>
   now (snd (DeleteUserByID e userID w)) = now w \<and>
   filter isRedis (trace (snd (DeleteUserByID e userID w))) = filter isRedis (trace w) \<and>
   (\<forall>e' d k. cachedUser e' (advance d (snd (UpdateUserByID e userID body w))) k =
             cachedUser e' (advance d w) k) \<and>
   (\<forall>e' d k. cachedUser e' (advance d (snd (DeleteUserByID e userID w))) k =
             cachedUser e' (advance d w) k)"
proof -
  have u: "cache (snd (UpdateUserByID e userID body w)) = cache w"
    "now (snd (UpdateUserByID e userID body w)) = now w"
    "filter isRedis (trace (snd (UpdateUserByID e userID body w))) = filter isRedis (trace w)"
    using UpdateUserByID_frame[of e userID body w] by blast+
  have d: "cache (snd (DeleteUserByID e userID w)) = cache w"
    "now (snd (DeleteUserByID e userID w)) = now w"
    "filter isRedis (trace (snd (DeleteUserByID e userID w))) = filter isRedis (trace w)"
    using DeleteUserByID_frame[of e userID w] by blast+
  show ?thesis
    using u d cachedUser_frame[OF u(1) u(2)] cachedUser_frame[OF d(1) d(2)] by blast
qed


section \<open>Deleting a user that does not exist\<close>

text \<open>
  C9, evaluated. \<open>DeleteUserByID\<close> for the id \<open>7\<close>, which no row carries, returns nil
  and leaves the table as it was; for the id \<open>1\<close> of \<open>alice\<close> it returns the same nil
  and removes the row. The caller sees one outcome for both.
\<close>

theorem delete_not_found_reports_success:
  "fst (DeleteUserByID env0 ''7'' world0) = None \<and>
   users (snd (DeleteUserByID env0 ''7'' world0)) = users world0 \<and>
   fst (DeleteUserByID env0 ''1'' world0) = None \<and>
   users (snd (DeleteUserByID env0 ''1'' world0)) = []"
  by (simp add: DeleteUserByID_def repoGetUserByID_def repoDeleteUser_def emit_def env0_def world0_def alice_def)

section \<open>Status and role on update\<close>

text \<open>
  C6, evaluated. \<open>UpdateUserByID\<close> with the status \<open>Pending\<close> and the role \<open>Root\<close> succeeds
  and stores both in the row of \<open>alice\<close>, while \<open>CreateUser\<close> rejects the status
  \<open>Pending\<close>.
\<close>

theorem update_stores_unknown_status:
  "fst (UpdateUserByID env0 ''1'' (emptyBody\<lparr>Status := ''Pending'', Role := ''Root''\<rparr>) world0) =
     Inr (Some (alice\<lparr>Status := ''Pending'', Role := ''Root''\<rparr>)) \<and>
   users (snd (UpdateUserByID env0 ''1'' (emptyBody\<lparr>Status := ''Pending'', Role := ''Root''\<rparr>) world0)) =
     [alice\<lparr>Status := ''Pending'', Role := ''Root''\<rparr>] \<and>
   fst (CreateUser env0 (bob\<lparr>Status := ''Pending''\<rparr>) world0) = Inl (ErrorsNew ''invalid status value'')"
  by (simp add: UpdateUserByID_def CreateUser_def applyUpdate_eq mergeFields_def repoGetUserByID_def repoUpdateUser_def emit_def
      env0_def world0_def alice_def emptyBody_def bob_def usernameRegex_def isLetter_def Active_def Inactive_def)

section \<open>Validation on create\<close>




section \<open>Partial update\<close>






section \<open>Create followed by read\<close>

subsection \<open>Identifiers\<close>

lemma decimal_nonempty: "decimal n \<noteq> []"
  by (subst decimal.simps) simp

lemma digit_value: "d < 10 \<Longrightarrow> (of_char (digit d) :: nat) - 48 = d"
  by (simp add: digit_def)

lemma decimal_value: "foldl (\<lambda>a c. 10 * a + ((of_char c :: nat) - 48)) 0 (decimal n) = n"
proof (induction n rule: decimal.induct)
  case (1 n)
  show ?case
  proof (cases "n < 10")
    case True
    then show ?thesis by (subst decimal.simps) (simp add: digit_value)
  next
    case False
    then have "foldl (\<lambda>a c. 10 * a + ((of_char c :: nat) - 48)) 0 (decimal (n div 10)) = n div 10"
      using 1 by simp
    with False show ?thesis by (subst decimal.simps) (simp add: digit_value)
  qed
qed

lemma decimal_inj: "decimal m = decimal n \<Longrightarrow> m = n"
  by (metis decimal_value)

subsection \<open>Well-formed states\<close>

text \<open>The start-up state is well-formed, and every service and the passing of time
  keep a state well-formed.\<close>

lemma wellFormed_worldEmpty: "wellFormed worldEmpty"
  by (simp add: wellFormed_def worldEmpty_def)

lemma find_Some_set: "find P xs = Some u \<Longrightarrow> u \<in> set xs \<and> P u"
  by (induction xs) (auto split: if_splits)

lemma wellFormedI:
  assumes "wellFormed w" and "nextID w \<le> nextID w'"
    and "\<forall>x \<in> set (users w'). (\<exists>y \<in> set (users w). ID x = ID y) \<or> (\<exists>k < nextID w'. ID x = decimal k)"
    and "\<forall>k. nextID w' \<le> k \<longrightarrow> cache w' (userCachePrefix @ decimal k) = cache w (userCachePrefix @ decimal k)"
  shows "wellFormed w'"
  unfolding wellFormed_def
proof (intro conjI ballI allI impI)
  fix u assume "u \<in> set (users w')"
  then consider (old) y where "y \<in> set (users w)" "ID u = ID y" | (new) k where "k < nextID w'" "ID u = decimal k"
    using assms(3) by blast
  then show "\<exists>k<nextID w'. ID u = decimal k"
  proof cases
    case old
    then obtain k where "k < nextID w" "ID y = decimal k" using assms(1) by (auto simp: wellFormed_def)
    then show ?thesis using old(2) assms(2) by (intro exI[of _ k]) simp
  next
    case new
    then show ?thesis by blast
  qed
next
  fix k assume "nextID w' \<le> k"
  then show "cache w' (userCachePrefix @ decimal k) = None"
    using assms(1,2,4) by (simp add: wellFormed_def)
qed

lemma CreateUser_effect:
  "cache (snd (CreateUser e body w)) = cache w \<and>
   (users (snd (CreateUser e body w)) = users w \<and> nextID (snd (CreateUser e body w)) = nextID w \<or>
    (\<exists>u. users (snd (CreateUser e body w)) = users w @ [u] \<and> ID u = decimal (nextID w) \<and>
         nextID (snd (CreateUser e body w)) = Suc (nextID w)))"
  by (simp add: CreateUser_def bcryptGenerateFromPassword_def repoCreateUser_def emit_def
      split: option.splits sum.splits)

lemma wellFormedI_same:
  assumes "wellFormed w" and "nextID w' = nextID w" and "cache w' = cache w"
    and "\<forall>x \<in> set (users w'). \<exists>y \<in> set (users w). ID x = ID y"
  shows "wellFormed w'"
proof (rule wellFormedI[OF assms(1)])
  show "nextID w \<le> nextID w'" using assms(2) by simp
  show "\<forall>x \<in> set (users w'). (\<exists>y \<in> set (users w). ID x = ID y) \<or>
          (\<exists>k < nextID w'. ID x = decimal k)"
    using assms(4) by blast
  show "\<forall>k. nextID w' \<le> k \<longrightarrow>
          cache w' (userCachePrefix @ decimal k) = cache w (userCachePrefix @ decimal k)"
    using assms(3) by simp
qed

lemma wellFormed_CreateUser:
  assumes "wellFormed w"
  shows "wellFormed (snd (CreateUser e body w))"
proof -
  let ?w' = "snd (CreateUser e body w)"
  note E = CreateUser_effect[of e body w]
  have c: "cache ?w' = cache w" using E by blast
  consider (same) "users ?w' = users w" "nextID ?w' = nextID w"
    | (new) u where "users ?w' = users w @ [u]" "ID u = decimal (nextID w)"
        "nextID ?w' = Suc (nextID w)"
    using E by blast
  then show ?thesis
  proof cases
    case same
    show ?thesis
      by (rule wellFormedI_same[OF assms same(2) c]) (auto simp: same(1))
  next
    case new
    show ?thesis
    proof (rule wellFormedI[OF assms])
      show "nextID w \<le> nextID ?w'" using new(3) by simp
      show "\<forall>x \<in> set (users ?w'). (\<exists>y \<in> set (users w). ID x = ID y) \<or>
              (\<exists>k < nextID ?w'. ID x = decimal k)"
      proof
        fix x assume "x \<in> set (users ?w')"
        then have "x \<in> set (users w) \<or> x = u" using new(1) by auto
        then show "(\<exists>y \<in> set (users w). ID x = ID y) \<or> (\<exists>k < nextID ?w'. ID x = decimal k)"
        proof
          assume "x \<in> set (users w)"
          then show ?thesis by blast
        next
          assume "x = u"
          then have "nextID w < nextID ?w' \<and> ID x = decimal (nextID w)" using new(2,3) by simp
          then show ?thesis by blast
        qed
      qed
      show "\<forall>k. nextID ?w' \<le> k \<longrightarrow>
              cache ?w' (userCachePrefix @ decimal k) = cache w (userCachePrefix @ decimal k)"
        using c by simp
    qed
  qed
qed

lemma GetUserByID_effect:
  "users (snd (GetUserByID e userID w)) = users w \<and>
   nextID (snd (GetUserByID e userID w)) = nextID w \<and>
   (cache (snd (GetUserByID e userID w)) = cache w \<or>
    (\<exists>u v. find (\<lambda>u. ID u = userID) (users w) = Some u \<and>
           cache (snd (GetUserByID e userID w)) = (cache w)(userCachePrefix @ userID \<mapsto> v)))"
  by (auto simp: GetUserByID_def GetUserByID_database_def redisGet_def redisSet_def
      repoGetUserByID_def emit_def split: option.splits sum.splits prod.splits)

lemma wellFormed_GetUserByID:
  assumes "wellFormed w"
  shows "wellFormed (snd (GetUserByID e userID w))"
proof (rule wellFormedI[OF assms])
  let ?w' = "snd (GetUserByID e userID w)"
  note E = GetUserByID_effect[of e userID w]
  show "nextID w \<le> nextID ?w'" using E by simp
  show "\<forall>x \<in> set (users ?w'). (\<exists>y \<in> set (users w). ID x = ID y) \<or> (\<exists>k < nextID ?w'. ID x = decimal k)"
    using E by auto
  show "\<forall>k. nextID ?w' \<le> k \<longrightarrow>
          cache ?w' (userCachePrefix @ decimal k) = cache w (userCachePrefix @ decimal k)"
  proof (intro allI impI)
    fix k assume k: "nextID ?w' \<le> k"
    consider (same) "cache ?w' = cache w"
      | (set) u v where "find (\<lambda>u. ID u = userID) (users w) = Some u"
          "cache ?w' = (cache w)(userCachePrefix @ userID \<mapsto> v)"
      using E by blast
    then show "cache ?w' (userCachePrefix @ decimal k) = cache w (userCachePrefix @ decimal k)"
    proof cases
      case same
      then show ?thesis by simp
    next
      case set
      then have "u \<in> set (users w)" "ID u = userID" using find_Some_set[OF set(1)] by simp_all
      then obtain j where j: "j < nextID w" "userID = decimal j"
        using assms by (auto simp: wellFormed_def)
      have "j \<noteq> k" using j(1) k E by simp
      then have "decimal k \<noteq> userID" using j(2) decimal_inj by blast
      then show ?thesis using set(2) by simp
    qed
  qed
qed

lemma mergeFields_ID: "ID (mergeFields body u pw) = ID u"
  by (simp add: mergeFields_def)

lemma map_ID_replace:
  "ID r = i \<Longrightarrow> map ID (map (\<lambda>x. if ID x = i then r else x) xs) = map ID xs"
  by (induction xs) auto

lemma UpdateUserByID_effect:
  "nextID (snd (UpdateUserByID e userID body w)) = nextID w \<and>
   cache (snd (UpdateUserByID e userID body w)) = cache w \<and>
   map ID (users (snd (UpdateUserByID e userID body w))) = map ID (users w)"
  by (simp add: UpdateUserByID_def applyUpdate_eq mergeFields_ID map_ID_replace repoGetUserByID_def
      repoUpdateUser_def emit_def split: option.splits sum.splits)

lemma wellFormed_UpdateUserByID:
  assumes "wellFormed w"
  shows "wellFormed (snd (UpdateUserByID e userID body w))"
proof -
  let ?w' = "snd (UpdateUserByID e userID body w)"
  note E = UpdateUserByID_effect[of e userID body w]
  have "map ID (users ?w') = map ID (users w)" using E by blast
  then have "ID ` set (users ?w') = ID ` set (users w)"
    by (metis set_map)
  then have "\<forall>x \<in> set (users ?w'). \<exists>y \<in> set (users w). ID x = ID y"
    by (metis imageE imageI)
  moreover have "nextID ?w' = nextID w" "cache ?w' = cache w" using E by blast+
  ultimately show ?thesis using wellFormedI_same[OF assms] by blast
qed

lemma DeleteUserByID_effect:
  "nextID (snd (DeleteUserByID e userID w)) = nextID w \<and>
   cache (snd (DeleteUserByID e userID w)) = cache w \<and>
   set (users (snd (DeleteUserByID e userID w))) \<subseteq> set (users w)"
  by (auto simp: DeleteUserByID_def repoGetUserByID_def repoDeleteUser_def emit_def
      split: option.splits sum.splits)

lemma wellFormed_DeleteUserByID:
  assumes "wellFormed w"
  shows "wellFormed (snd (DeleteUserByID e userID w))"
proof -
  let ?w' = "snd (DeleteUserByID e userID w)"
  note E = DeleteUserByID_effect[of e userID w]
  have "\<forall>x \<in> set (users ?w'). \<exists>y \<in> set (users w). ID x = ID y" using E by blast
  moreover have "nextID ?w' = nextID w" "cache ?w' = cache w" using E by blast+
  ultimately show ?thesis using wellFormedI_same[OF assms] by blast
qed

lemma AuthenticateUser_effect:
  "nextID (snd (AuthenticateUser e body w)) = nextID w \<and>
   cache (snd (AuthenticateUser e body w)) = cache w \<and>
   users (snd (AuthenticateUser e body w)) = users w"
  by (simp add: AuthenticateUser_def repoGetUserByUsername_def bcryptCompareHashAndPassword_def
      utilsGenerateJWTToken_def emit_def split: option.splits sum.splits bool.splits)

lemma wellFormed_AuthenticateUser:
  assumes "wellFormed w"
  shows "wellFormed (snd (AuthenticateUser e body w))"
proof -
  let ?w' = "snd (AuthenticateUser e body w)"
  note E = AuthenticateUser_effect[of e body w]
  have "\<forall>x \<in> set (users ?w'). \<exists>y \<in> set (users w). ID x = ID y" using E by auto
  moreover have "nextID ?w' = nextID w" "cache ?w' = cache w" using E by blast+
  ultimately show ?thesis using wellFormedI_same[OF assms] by blast
qed

lemma wellFormed_advance: "wellFormed w \<Longrightarrow> wellFormed (advance d w)"
  by (simp add: wellFormed_def advance_def)

lemma find_fresh_append:
  "\<forall>x \<in> set xs. \<not> P x \<Longrightarrow> P y \<Longrightarrow> find P (xs @ [y]) = Some y"
  by (induction xs) auto

lemma wellFormed_fresh_id:
  "wellFormed w \<Longrightarrow> \<forall>u \<in> set (users w). ID u \<noteq> decimal (nextID w)"
  unfolding wellFormed_def using decimal_inj by fastforce

lemma wellFormed_fresh_key:
  "wellFormed w \<Longrightarrow> cache w (userCachePrefix @ decimal (nextID w)) = None"
  unfolding wellFormed_def by simp

lemma CreateUser_valid:
  assumes "validInput body" and "GenerateFromPassword e (Password body) = Inr h"
    and "repoCreateErr e = None" and "find (\<lambda>u. Username u = Username body) (users w) = None"
  shows "CreateUser e body w =
     (Inr \<lparr>ID = decimal (nextID w), FullName = FullName body, Username = Username body,
           Password = h, Status = Status body, Role = Role body, ProfilePicture = []\<rparr>,
      w\<lparr>users := users w @
           [\<lparr>ID = decimal (nextID w), FullName = FullName body, Username = Username body,
             Password = h, Status = Status body, Role = Role body, ProfilePicture = []\<rparr>],
        nextID := Suc (nextID w),
        trace := trace w @
           [BcryptGenerate (Password body),
            RepoCreateUser \<lparr>ID = [], FullName = FullName body, Username = Username body,
              Password = h, Status = Status body, Role = Role body, ProfilePicture = []\<rparr>]\<rparr>)"
proof -
  have g: "FullName body \<noteq> []" "Username body \<noteq> []" "Password body \<noteq> []"
    "usernameRegex (Username body)" "\<not> length (Password body) < 8" "\<not> 15 < length (Password body)"
    "\<not> (Status body \<noteq> Active \<and> Status body \<noteq> Inactive)"
    "\<not> (Role body \<noteq> Admin \<and> Role body \<noteq> Operator)"
    using assms(1) by (auto simp: validInput_def)
  show ?thesis
    unfolding CreateUser_def using g assms(2,3,4)
    by (simp add: bcryptGenerateFromPassword_def repoCreateUser_def emit_def)
qed

lemma GetUserByID_uncached:
  assumes "userID \<noteq> []" and "cache w (userCachePrefix @ userID) = None"
    and "repoGetErr e = None" and "find (\<lambda>u. ID u = userID) (users w) = Some u"
  shows "fst (GetUserByID e userID w) = Inr (Some u)"
  using assms
  by (auto simp: GetUserByID_def GetUserByID_database_def redisGet_def redisSet_def
      repoGetUserByID_def emit_def split: option.splits sum.splits prod.splits)

lemma bcryptContract_env0: "bcryptContract env0"
  by (auto simp: bcryptContract_def env0_def exampleGenerate_def exampleHash_def split: if_splits)

lemma wellFormed_world0: "wellFormed world0"
proof -
  have "''1'' = decimal 1" by code_simp
  then have "\<exists>k<2. ''1'' = decimal k" by (intro exI[of _ 1]) simp
  then show ?thesis by (simp add: wellFormed_def world0_def alice_def)
qed

subsection \<open>The round trip\<close>

text \<open>
  C4, as the code has it. In a well-formed state, for a body that passes the rules of
  \<open>CreateUser\<close>, a bcrypt that keeps its promise and returns the hash \<open>h\<close>, a username that
  no row carries and a repository that answers, \<open>CreateUser\<close> followed by \<open>GetUserByID\<close>
  of the assigned identifier returns the user whose full name, username, status and
  role are the body's, whose password field is \<open>h\<close> and whose profile picture is empty,
  whatever the body's profile picture was and whatever the cache transport and the
  serialiser do on the read. The hash differs from the plaintext and verifies
  against it.
\<close>

theorem create_then_read:
  assumes "wellFormed w" and "validInput body" and "bcryptContract e"
    and "GenerateFromPassword e (Password body) = Inr h"
    and "repoCreateErr e = None"
    and "find (\<lambda>u. Username u = Username body) (users w) = None"
    and "repoGetErr e' = None"
  shows
   "fst (createThenRead e e' body w) =
      Inr (Some \<lparr>ID = decimal (nextID w), FullName = FullName body, Username = Username body,
                 Password = h, Status = Status body, Role = Role body, ProfilePicture = []\<rparr>) \<and>
    h \<noteq> Password body \<and> CompareHashAndPassword e h (Password body)"
proof -
  let ?new = "\<lparr>ID = decimal (nextID w), FullName = FullName body, Username = Username body,
                 Password = h, Status = Status body, Role = Role body, ProfilePicture = []\<rparr>"
  let ?w1 = "snd (CreateUser e body w)"
  have c: "fst (CreateUser e body w) = Inr ?new" "users ?w1 = users w @ [?new]" "cache ?w1 = cache w"
    using CreateUser_valid[OF assms(2,4,5,6)] by simp_all
  have f: "find (\<lambda>u. ID u = decimal (nextID w)) (users ?w1) = Some ?new"
    using wellFormed_fresh_id[OF assms(1)] c(2) by (simp add: find_fresh_append)
  have k: "cache ?w1 (userCachePrefix @ decimal (nextID w)) = None"
    using wellFormed_fresh_key[OF assms(1)] c(3) by simp
  have r: "fst (GetUserByID e' (decimal (nextID w)) ?w1) = Inr (Some ?new)"
    using GetUserByID_uncached[OF decimal_nonempty k assms(7) f] .
  have cr: "createThenRead e e' body w = GetUserByID e' (decimal (nextID w)) ?w1"
    using c(1) by (cases "CreateUser e body w") (simp add: createThenRead_def)
  have b: "length h = 60" "CompareHashAndPassword e h (Password body)"
    using assms(3,4) by (auto simp: bcryptContract_def)
  have l: "length (Password body) \<le> 15" using assms(2) by (simp add: validInput_def)
  have "h \<noteq> Password body" using b(1) l by auto
  then show ?thesis using cr r b(2) by simp
qed

text \<open>The registration of \<open>bob\<close> next to \<open>alice\<close>, read back with the cache down.\<close>

theorem create_then_read_witness:
  "fst (createThenRead env0 envCacheDown bob world0) =
     Inr (Some (bob\<lparr>ID := ''2'', Password := exampleHash ''buildit123'', ProfilePicture := []\<rparr>)) \<and>
   exampleHash ''buildit123'' \<noteq> ''buildit123'' \<and>
   CompareHashAndPassword env0 (exampleHash ''buildit123'') ''buildit123''"
proof -
  have v: "validInput bob" by code_simp
  have g: "GenerateFromPassword env0 (Password bob) = Inr (exampleHash ''buildit123'')"
    by (simp add: env0_def bob_def exampleGenerate_def)
  have c: "repoCreateErr env0 = None" "repoGetErr envCacheDown = None"
    by (simp_all add: env0_def envCacheDown_def)
  have u: "find (\<lambda>u. Username u = Username bob) (users world0) = None"
    by (simp add: world0_def alice_def bob_def)
  have d: "decimal (nextID world0) = ''2''" by code_simp
  show ?thesis
    using create_then_read[OF wellFormed_world0 v bcryptContract_env0 g c(1) u c(2)]
    by (simp add: d bob_def)
qed

text \<open>
  C4 as stated fails: the registration of \<open>bob\<close> is valid and carries the profile picture
  \<open>bob.png\<close>, and the user read back has none. \<open>CreateUser\<close> builds the stored user from
  five fields of the body (lines 67 to 73) and the profile picture is not among them.
\<close>

theorem create_then_read_counterexample:
  "validInput bob \<and>
   fst (createThenRead env0 env0 bob world0) =
     Inr (Some (bob\<lparr>ID := ''2'', Password := exampleHash ''buildit123'', ProfilePicture := []\<rparr>)) \<and>
   ProfilePicture bob = ''bob.png''"
  by code_simp

end
